theory Spec2Isabelle
  imports Main "HOL-Library.Sublist" "HOL-Library.Log_Nat"
begin

section \<open>Python strings\<close>

text \<open>
  A Python \<open>str\<close> is a sequence of Unicode code points. The model covers the code points
  below 256, the range of \<^typ>\<open>char\<close>; the character classes below are those of
  Python's Unicode tables on that range (\<open>str.isspace\<close> and the regular expression
  classes \<open>\s\<close>, \<open>\w\<close>, \<open>\d\<close> of a \<open>str\<close> pattern).
\<close>

definition code_point :: "char \<Rightarrow> nat" where
  "code_point c = of_char c"

definition is_space :: "char \<Rightarrow> bool" where
  "is_space c =
     (let n = code_point c
      in (9 \<le> n \<and> n \<le> 13) \<or> (28 \<le> n \<and> n \<le> 32) \<or> n = 133 \<or> n = 160)"

definition is_digit :: "char \<Rightarrow> bool" where
  "is_digit c = (let n = code_point c in 48 \<le> n \<and> n \<le> 57)"

definition is_word :: "char \<Rightarrow> bool" where
  "is_word c =
     (let n = code_point c
      in (48 \<le> n \<and> n \<le> 57) \<or> (65 \<le> n \<and> n \<le> 90) \<or> n = 95 \<or> (97 \<le> n \<and> n \<le> 122)
         \<or> n = 170 \<or> n = 178 \<or> n = 179 \<or> n = 181 \<or> n = 185 \<or> n = 186
         \<or> n = 188 \<or> n = 189 \<or> n = 190
         \<or> (192 \<le> n \<and> n \<le> 214) \<or> (216 \<le> n \<and> n \<le> 246) \<or> (248 \<le> n \<and> n \<le> 255))"

text \<open>\<open>str.strip()\<close>: whitespace removed at both ends.\<close>

definition py_strip :: "string \<Rightarrow> string" where
  "py_strip s = rev (dropWhile is_space (rev (dropWhile is_space s)))"

text \<open>\<open>str.lower()\<close> on the code points below 256.\<close>

definition lower_char :: "char \<Rightarrow> char" where
  "lower_char c =
     (let n = code_point c
      in if (65 \<le> n \<and> n \<le> 90) \<or> (192 \<le> n \<and> n \<le> 222 \<and> n \<noteq> 215)
         then char_of (n + 32) else c)"

definition py_lower :: "string \<Rightarrow> string" where
  "py_lower s = map lower_char s"

text \<open>The operator \<open>in\<close> on strings: \<open>py_in a b\<close> is \<open>a in b\<close>.\<close>

fun py_in :: "string \<Rightarrow> string \<Rightarrow> bool" where
  "py_in a [] = (a = [])"
| "py_in a (y # ys) = (prefix a (y # ys) \<or> py_in a ys)"

section \<open>NameMatcher: \<open>clean_commodity_name\<close> and \<open>is_target_commodity\<close>\<close>

definition is_line_break :: "char \<Rightarrow> bool" where
  "is_line_break c = (c = CHR 0x0A \<or> c = CHR 0x0D)"

definition name_char :: "char \<Rightarrow> bool" where
  "name_char c = (is_word c \<or> is_space c \<or> c = CHR ''-'')"

text \<open>
  \<^verbatim>\<open>name = re.split(r'\n|\r', raw_name)[0].strip()\<close>
  \<^verbatim>\<open>return re.sub(r'[^\w\s-]', '', name).strip()\<close>
\<close>

definition clean_commodity_name :: "string \<Rightarrow> string" where
  "clean_commodity_name raw_name =
     (let name = py_strip (takeWhile (\<lambda>c. \<not> is_line_break c) raw_name)
      in py_strip (filter name_char name))"

text \<open>
  The cleaning as the specification words it: the text before the first line break,
  trimmed, with every character other than word characters, whitespace and hyphens removed.
\<close>

definition clean_spec :: "string \<Rightarrow> string" where
  "clean_spec raw_name =
     filter name_char (py_strip (takeWhile (\<lambda>c. \<not> is_line_break c) raw_name))"

text \<open>
  \<^verbatim>\<open>for target in self.target_commodities:\<close>
  \<^verbatim>\<open>    if target.lower() in name.lower(): return target\<close>
  \<^verbatim>\<open>return None\<close>
\<close>

fun is_target_commodity :: "string list \<Rightarrow> string \<Rightarrow> string option" where
  "is_target_commodity [] name = None"
| "is_target_commodity (target # targets) name =
     (if py_in (py_lower target) (py_lower name) then Some target
      else is_target_commodity targets name)"

text \<open>The constructor: \<^verbatim>\<open>target_commodities or ['Lithium', 'Lead', 'Cobalt']\<close>.\<close>

definition init_target_commodities :: "string list option \<Rightarrow> string list" where
  "init_target_commodities arg =
     (case arg of
        None \<Rightarrow> [''Lithium'', ''Lead'', ''Cobalt'']
      | Some ts \<Rightarrow> if ts = [] then [''Lithium'', ''Lead'', ''Cobalt''] else ts)"

section \<open>Floating-point values\<close>

text \<open>
  A Python \<open>float\<close> is an IEEE 754 binary64 value: a finite value (a rational on the
  binary64 grid), an infinity or a NaN.
\<close>

datatype pyfloat = Finite rat | PosInf | NegInf | NaN

definition float_finite :: "pyfloat \<Rightarrow> bool" where
  "float_finite x = (case x of Finite q \<Rightarrow> True | _ \<Rightarrow> False)"

definition float_nonneg :: "pyfloat \<Rightarrow> bool" where
  "float_nonneg x = (case x of Finite q \<Rightarrow> 0 \<le> q | PosInf \<Rightarrow> True | _ \<Rightarrow> False)"

definition pow2 :: "int \<Rightarrow> rat" where
  "pow2 i = (if 0 \<le> i then 2 ^ nat i else 1 / 2 ^ nat (- i))"

definition round_half_even :: "rat \<Rightarrow> int" where
  "round_half_even x =
     (let f = \<lfloor>x\<rfloor>; d = x - of_int f
      in if d < 1 / 2 then f else if 1 / 2 < d then f + 1 else if even f then f else f + 1)"

text \<open>\<open>floor_log2 a b\<close> is the integer part of the binary logarithm of \<open>a / b\<close>, for positive \<open>a\<close> and \<open>b\<close>.\<close>

definition floor_log2 :: "nat \<Rightarrow> nat \<Rightarrow> int" where
  "floor_log2 a b =
     (let k = int (floorlog 2 a) - int (floorlog 2 b)
      in if pow2 k * of_nat b \<le> of_nat a then k else k - 1)"

text \<open>
  \<open>round_double a b\<close> is the binary64 value nearest to \<open>a / b\<close> (ties to even): 53
  significant bits, the least exponent -1022 (below it the grid is that of the subnormal
  numbers), and an infinity from \<open>2^1024 - 2^970\<close> on.
\<close>

definition round_double :: "nat \<Rightarrow> nat \<Rightarrow> pyfloat" where
  "round_double a b =
     (if a = 0 then Finite 0
      else if 2 ^ 1024 - 2 ^ 970 \<le> (of_nat a / of_nat b :: rat) then PosInf
      else
        let e = max (floor_log2 a b) (- 1022);
            ulp = pow2 (e - 52)
        in Finite (of_int (round_half_even (of_nat a / of_nat b / ulp)) * ulp))"

definition digits_val :: "string \<Rightarrow> nat" where
  "digits_val ds = foldl (\<lambda>a c. 10 * a + (code_point c - 48)) 0 ds"

text \<open>
  \<open>float(s)\<close> for a string of digits and periods, the only strings \<open>parse_price\<close> passes
  to it: digits with at most one period and at least one digit; \<open>None\<close> is the
  \<open>ValueError\<close> of every other such string.
\<close>

definition py_float :: "string \<Rightarrow> pyfloat option" where
  "py_float s =
     (let ip = takeWhile is_digit s; rest = dropWhile is_digit s
      in case rest of
           [] \<Rightarrow> if ip = [] then None else Some (round_double (digits_val ip) 1)
         | c # fp \<Rightarrow>
             if c = CHR ''.'' \<and> list_all is_digit fp \<and> (ip \<noteq> [] \<or> fp \<noteq> [])
             then Some (round_double (digits_val (ip @ fp)) (10 ^ length fp))
             else None)"

section \<open>The document tree\<close>

text \<open>
  The parsed document of BeautifulSoup: an element has a tag name, an \<open>id\<close> attribute,
  the tokens of its \<open>class\<close> attribute (none when it has no class) and children; a
  \<open>NavigableString\<close> is a text node.
  \<open>find_all\<close> and \<open>find\<close> search all the descendants of a node, in document
  order, and not the node itself. Comments and the other special strings, which
  \<open>get_text\<close> leaves out, are not part of the model; neither are the log messages.
\<close>

datatype node = Tag string "string option" "string list" "node list" | NavigableString string

text \<open>\<open>descendants\<close>: every node below a node, in document order.\<close>

fun descendants :: "node \<Rightarrow> node list" where
  "descendants (NavigableString s) = []"
| "descendants (Tag t i cs ks) = concat (map (\<lambda>k. k # descendants k) ks)"

fun is_named :: "string list \<Rightarrow> node \<Rightarrow> bool" where
  "is_named names (Tag t i cs ks) = (t \<in> set names)"
| "is_named names (NavigableString s) = False"

definition find_all :: "string list \<Rightarrow> node \<Rightarrow> node list" where
  "find_all names n = filter (is_named names) (descendants n)"

fun node_strings :: "node \<Rightarrow> string list" where
  "node_strings (Tag t i cs ks) = []"
| "node_strings (NavigableString s) = [s]"

text \<open>\<open>get_text(strip=True)\<close>: the text nodes below, each stripped, the empty ones dropped, joined.\<close>

definition get_text :: "node \<Rightarrow> string" where
  "get_text n =
     concat (filter (\<lambda>s. s \<noteq> []) (map py_strip (concat (map node_strings (descendants n)))))"

fun has_id_p :: "node \<Rightarrow> bool" where
  "has_id_p (Tag t i cs ks) = (i = Some ''p'')"
| "has_id_p (NavigableString s) = False"

text \<open>\<open>re.compile('price', re.I).search(s)\<close>.\<close>

definition search_price :: "string \<Rightarrow> bool" where
  "search_price s = py_in ''price'' (py_lower s)"

fun join_space :: "string list \<Rightarrow> string" where
  "join_space [] = []"
| "join_space [c] = c"
| "join_space (c # cs) = c @ '' '' @ join_space cs"

text \<open>A class matches when one of its tokens does, or the tokens joined by spaces do.\<close>

fun has_price_class :: "node \<Rightarrow> bool" where
  "has_price_class (Tag t i cs ks) = (list_ex search_price cs \<or> search_price (join_space cs))"
| "has_price_class (NavigableString s) = False"

section \<open>PriceExtractor: \<open>extract_price_from_cell\<close>\<close>

text \<open>What a strategy returns: an element (\<open>find\<close>) or a string.\<close>

datatype pyval = PTag node | PStr string

text \<open>Truth value: an element is always true, a string when it is not empty, \<open>None\<close> never.\<close>

fun truthy :: "pyval option \<Rightarrow> bool" where
  "truthy None = False"
| "truthy (Some (PTag e)) = True"
| "truthy (Some (PStr s)) = (s \<noteq> [])"

definition strategy1 :: "node \<Rightarrow> pyval option" where
  "strategy1 c = map_option PTag (List.find has_id_p (descendants c))"

definition strategy2 :: "node \<Rightarrow> pyval option" where
  "strategy2 c = map_option PTag (List.find has_price_class (descendants c))"

text \<open>
  \<^verbatim>\<open>next((e.get_text(strip=True) for tag in ['span', 'div', 'strong']\<close>
  \<^verbatim>\<open>      for e in c.find_all(tag) if re.search(r'\d+', e.get_text(strip=True))), None)\<close>
\<close>

definition strategy3 :: "node \<Rightarrow> pyval option" where
  "strategy3 c =
     map_option (\<lambda>e. PStr (get_text e))
       (List.find (\<lambda>e. list_ex is_digit (get_text e))
          (concat (map (\<lambda>tag. find_all [tag] c) [''span'', ''div'', ''strong''])))"

definition strategy4 :: "node \<Rightarrow> pyval option" where
  "strategy4 c = Some (PStr (get_text c))"

fun first_truthy :: "(node \<Rightarrow> pyval option) list \<Rightarrow> node \<Rightarrow> pyval option" where
  "first_truthy [] price_cell = None"
| "first_truthy (strategy # strategies) price_cell =
     (let result = strategy price_cell
      in if truthy result then result else first_truthy strategies price_cell)"

definition extract_price_from_cell :: "node \<Rightarrow> pyval option" where
  "extract_price_from_cell price_cell =
     first_truthy [strategy1, strategy2, strategy3, strategy4] price_cell"

section \<open>PriceParser: \<open>parse_price\<close>\<close>

datatype pyerror = TypeError | RequestException

text \<open>
  \<^verbatim>\<open>try:\<close>
  \<^verbatim>\<open>    clean = re.sub(r'[^\d.,]', '', price_text).replace(',', '')\<close>
  \<^verbatim>\<open>    return float(clean) if clean else None\<close>
  \<^verbatim>\<open>except (ValueError, AttributeError): return None\<close>
  \<open>re.sub\<close> raises \<open>TypeError\<close> on an argument that is not a string, and the handler
  does not catch it.
\<close>

definition price_char :: "char \<Rightarrow> bool" where
  "price_char c = (is_digit c \<or> c = CHR ''.'' \<or> c = CHR '','')"

fun parse_price :: "pyval option \<Rightarrow> pyerror + pyfloat option" where
  "parse_price None = Inl TypeError"
| "parse_price (Some (PTag e)) = Inl TypeError"
| "parse_price (Some (PStr price_text)) =
     (let clean = filter (\<lambda>c. c \<noteq> CHR '','') (filter price_char price_text)
      in if clean \<noteq> [] then Inr (py_float clean) else Inr None)"

section \<open>TableScanner and orchestrator: \<open>scrape_all_tables\<close>, \<open>scrape_commodities\<close>\<close>

record CommodityPrice =
  name :: string
  price :: pyfloat
  timestamp :: nat
  currency :: string
  unit :: string

definition new_CommodityPrice :: "string \<Rightarrow> pyfloat \<Rightarrow> nat \<Rightarrow> CommodityPrice" where
  "new_CommodityPrice n p t =
     \<lparr>name = n, price = p, timestamp = t, currency = ''USD'', unit = ''per tonne''\<rparr>"

type_synonym results = "string \<rightharpoonup> CommodityPrice"

text \<open>The body of the loop over the rows of a table.\<close>

definition scan_row :: "string list \<Rightarrow> nat \<Rightarrow> results \<Rightarrow> node \<Rightarrow> pyerror + results" where
  "scan_row targets stamp results row =
     (let cols = find_all [''td'', ''th''] row
      in if 2 \<le> length cols then
           let raw_name = get_text (cols ! 0);
               name = clean_commodity_name raw_name
           in case is_target_commodity targets name of
                None \<Rightarrow> Inr results
              | Some target \<Rightarrow>
                  if target = [] then Inr results
                  else
                    (case parse_price (extract_price_from_cell (cols ! 1)) of
                       Inl err \<Rightarrow> Inl err
                     | Inr None \<Rightarrow> Inr results
                     | Inr (Some price_value) \<Rightarrow>
                         Inr (results(target \<mapsto> new_CommodityPrice target price_value stamp)))
         else Inr results)"

fun scan_rows :: "string list \<Rightarrow> nat \<Rightarrow> results \<Rightarrow> node list \<Rightarrow> pyerror + results" where
  "scan_rows targets stamp results [] = Inr results"
| "scan_rows targets stamp results (row # rows) =
     (case scan_row targets stamp results row of
        Inl err \<Rightarrow> Inl err
      | Inr results' \<Rightarrow> scan_rows targets stamp results' rows)"

text \<open>The body of the loop over the tables: \<^verbatim>\<open>if len(rows) < 2: continue\<close>, then \<^verbatim>\<open>rows[1:]\<close>.\<close>

definition scan_table :: "string list \<Rightarrow> nat \<Rightarrow> results \<Rightarrow> node \<Rightarrow> pyerror + results" where
  "scan_table targets stamp results table =
     (let rows = find_all [''tr''] table
      in if length rows < 2 then Inr results
         else scan_rows targets stamp results (tl rows))"

fun scan_tables :: "string list \<Rightarrow> nat \<Rightarrow> results \<Rightarrow> node list \<Rightarrow> pyerror + results" where
  "scan_tables targets stamp results [] = Inr results"
| "scan_tables targets stamp results (table # tables) =
     (case scan_table targets stamp results table of
        Inl err \<Rightarrow> Inl err
      | Inr results' \<Rightarrow> scan_tables targets stamp results' tables)"

text \<open>\<open>stamp\<close> is the value of \<open>datetime.now()\<close>, read once before the scan.\<close>

definition scrape_all_tables :: "string list \<Rightarrow> nat \<Rightarrow> node \<Rightarrow> pyerror + results" where
  "scrape_all_tables targets stamp soup =
     scan_tables targets stamp Map.empty (find_all [''table''] soup)"

text \<open>
  \<open>scrape_commodities\<close>, given what \<open>fetch_page\<close> returned or raised: every exception
  of the fetch or of the scan ends in \<^verbatim>\<open>return {}\<close>.
\<close>

definition scrape_commodities :: "string list \<Rightarrow> nat \<Rightarrow> pyerror + node \<Rightarrow> results" where
  "scrape_commodities targets stamp fetched =
     (case fetched of
        Inl err \<Rightarrow> Map.empty
      | Inr soup \<Rightarrow>
          (case scrape_all_tables targets stamp soup of
             Inl err \<Rightarrow> Map.empty
           | Inr prices \<Rightarrow> prices))"

section \<open>Predicates used in the statements\<close>

text \<open>A string with no whitespace at either end.\<close>

definition trimmed :: "string \<Rightarrow> bool" where
  "trimmed s = (s = [] \<or> (\<not> is_space (hd s) \<and> \<not> is_space (last s)))"

text \<open>
  The invariant of the result mapping: every key is a target, every record carries its
  key as its name, and every price is non-negative.
\<close>

definition good_results :: "string list \<Rightarrow> results \<Rightarrow> bool" where
  "good_results targets results =
     (\<forall>k r. results k = Some r \<longrightarrow>
        k \<in> set targets \<and> name r = k \<and> float_nonneg (price r))"

text \<open>The entry a row writes: the target its label matches and the price parsed from its
  second cell, when there are both.\<close>

definition row_entry :: "string list \<Rightarrow> node \<Rightarrow> (string \<times> pyfloat) option" where
  "row_entry targets row =
     (let cols = find_all [''td'', ''th''] row
      in if 2 \<le> length cols then
           (case is_target_commodity targets (clean_commodity_name (get_text (cols ! 0))) of
              None \<Rightarrow> None
            | Some target \<Rightarrow>
                if target = [] then None
                else
                  (case parse_price (extract_price_from_cell (cols ! 1)) of
                     Inr (Some price_value) \<Rightarrow> Some (target, price_value)
                   | _ \<Rightarrow> None))
         else None)"

text \<open>The rows of a table that the scan treats as data, and those of a document in scan order.\<close>

definition data_rows :: "node \<Rightarrow> node list" where
  "data_rows table = (let rows = find_all [''tr''] table in if length rows < 2 then [] else tl rows)"

definition document_rows :: "node \<Rightarrow> node list" where
  "document_rows soup = concat (map data_rows (find_all [''table''] soup))"

text \<open>The prices that a list of rows writes for one target, in order.\<close>

definition target_prices :: "string list \<Rightarrow> string \<Rightarrow> node list \<Rightarrow> pyfloat list" where
  "target_prices targets t rows =
     map snd (filter (\<lambda>e. fst e = t) (List.map_filter (row_entry targets) rows))"

section \<open>Example documents\<close>

text \<open>A cell holding one text, an empty cell, a cell whose text sits in an element with the
  reserved identifier, a row of two cells, a header row.\<close>

definition cell :: "string \<Rightarrow> node" where
  "cell s = Tag ''td'' None [] [NavigableString s]"

definition empty_cell :: node where
  "empty_cell = Tag ''td'' None [] []"

definition marked_cell :: "string \<Rightarrow> node" where
  "marked_cell s = Tag ''td'' None [] [Tag ''span'' (Some ''p'') [] [NavigableString s]]"

definition row2 :: "node \<Rightarrow> node \<Rightarrow> node" where
  "row2 a b = Tag ''tr'' None [] [a, b]"

definition header :: node where
  "header =
     Tag ''tr'' None []
       [Tag ''th'' None [] [NavigableString ''Commodity''],
        Tag ''th'' None [] [NavigableString ''Price'']]"

text \<open>A document with one table of the given rows.\<close>

definition page :: "node list \<Rightarrow> node" where
  "page rows = Tag ''[document]'' None [] [Tag ''table'' None [] rows]"

text \<open>The default target list of the constructor.\<close>

definition default_targets :: "string list" where
  "default_targets = init_target_commodities None"

section \<open>Facts about strings\<close>

lemma set_py_strip: "set (py_strip s) \<subseteq> set s"
proof -
  have "set (py_strip s) \<subseteq> set (rev (dropWhile is_space s))"
    unfolding py_strip_def using set_dropWhileD by fastforce
  also have "\<dots> \<subseteq> set s"
    using set_dropWhileD by fastforce
  finally show ?thesis .
qed

lemma py_strip_trimmed_id: "trimmed s \<Longrightarrow> py_strip s = s"
proof (cases s)
  case Nil
  then show ?thesis by (simp add: py_strip_def)
next
  case (Cons c cs)
  assume t: "trimmed s"
  from t Cons have h: "\<not> is_space c" by (simp add: trimmed_def)
  from t Cons have l: "\<not> is_space (last s)" by (simp add: trimmed_def)
  have d: "dropWhile is_space s = s" using h Cons by simp
  have "rev s \<noteq> []" using Cons by simp
  moreover have "hd (rev s) = last s" using Cons by (simp add: hd_rev)
  ultimately have "dropWhile is_space (rev s) = rev s"
    using l by (simp add: dropWhile_eq_self_iff)
  then show ?thesis by (simp add: py_strip_def d)
qed

lemma trimmed_py_strip: "trimmed (py_strip s)"
proof -
  let ?d = "dropWhile is_space s"
  let ?e = "dropWhile is_space (rev ?d)"
  show ?thesis
  proof (cases "?e = []")
    case True
    then show ?thesis by (simp add: py_strip_def trimmed_def)
  next
    case False
    have ne: "?d \<noteq> []"
    proof
      assume "?d = []"
      then have "?e = []" by (simp only: rev.simps dropWhile.simps)
      with False show False by (simp only: not_True_eq_False)
    qed
    have last_e: "\<not> is_space (hd ?e)" using False by (rule hd_dropWhile)
    have hd_d: "\<not> is_space (hd ?d)" using ne by (rule hd_dropWhile)
    obtain ys where ys: "rev ?d = ys @ ?e"
      by (metis takeWhile_dropWhile_id)
    then have "?d = rev ?e @ rev ys" by (metis rev_append rev_rev_ident)
    then have "hd ?d = hd (rev ?e)" using False by (metis hd_append2 rev_is_Nil_conv)
    then have "\<not> is_space (hd (rev ?e))" using hd_d by simp
    moreover have "last (rev ?e) = hd ?e" using False by (simp add: last_rev)
    ultimately show ?thesis
      using last_e by (simp add: py_strip_def trimmed_def)
  qed
qed

lemma clean_commodity_name_unfold:
  "clean_commodity_name x =
     py_strip (filter name_char (py_strip (takeWhile (\<lambda>c. \<not> is_line_break c) x)))"
  by (simp add: clean_commodity_name_def)

lemma clean_commodity_name_chars:
  "c \<in> set (clean_commodity_name raw) \<Longrightarrow> name_char c \<and> \<not> is_line_break c"
proof -
  assume a: "c \<in> set (clean_commodity_name raw)"
  let ?cut = "takeWhile (\<lambda>c. \<not> is_line_break c) raw"
  from a have f: "c \<in> set (filter name_char (py_strip ?cut))"
    using set_py_strip by (fastforce simp: clean_commodity_name_def)
  then have "c \<in> set ?cut" using set_py_strip by fastforce
  then have "\<not> is_line_break c" by (rule set_takeWhileD [THEN conjunct2])
  with f show ?thesis by simp
qed

lemmas string_eval = code_point_def is_space_def is_digit_def is_word_def is_line_break_def
  name_char_def price_char_def py_strip_def py_lower_def lower_char_def char_of_def bit_0

lemma py_in_sublist: "py_in a b = sublist a b"
  by (induction b) (auto simp: sublist_Cons_right)

lemma is_target_commodity_find:
  "is_target_commodity targets label =
     List.find (\<lambda>t. py_in (py_lower t) (py_lower label)) targets"
  by (induction targets) simp_all

lemma filter_price_clean:
  "filter (\<lambda>c. c \<noteq> CHR '','') (filter price_char s) = filter (\<lambda>c. is_digit c \<or> c = CHR ''.'') s"
proof -
  have "\<not> is_digit CHR '',''" by (simp add: string_eval)
  then have "\<And>c. (price_char c \<and> c \<noteq> CHR '','') = (is_digit c \<or> c = CHR ''.'')"
    by (auto simp: price_char_def)
  then show ?thesis by simp
qed

section \<open>Claims about the name cleaner\<close>

text \<open>
  C10. Cleaning is idempotent: for every raw label, cleaning the cleaned label gives the
  cleaned label again.
\<close>

theorem clean_commodity_name_idempotent:
  "clean_commodity_name (clean_commodity_name raw) = clean_commodity_name raw"
proof -
  let ?r = "clean_commodity_name raw"
  have cut: "takeWhile (\<lambda>c. \<not> is_line_break c) ?r = ?r"
    using clean_commodity_name_chars by simp
  have tr: "py_strip ?r = ?r"
    by (rule py_strip_trimmed_id) (simp add: clean_commodity_name_def trimmed_py_strip)
  have keep: "filter name_char ?r = ?r"
    using clean_commodity_name_chars by (simp add: filter_id_conv)
  have "clean_commodity_name ?r = py_strip (filter name_char (py_strip ?r))"
    by (simp add: clean_commodity_name_unfold [of ?r] cut)
  also have "\<dots> = ?r" by (simp add: tr keep)
  finally show ?thesis .
qed


text \<open>C10 at the label \<open>Lead * \<close>.\<close>

theorem clean_commodity_name_idempotent_witness:
  "clean_commodity_name (clean_commodity_name ''Lead * '') = clean_commodity_name ''Lead * ''"
  by (rule clean_commodity_name_idempotent)

text \<open>
  C8, as stated: the cleaned label is the text before the first line break, trimmed, with
  every character other than word characters, whitespace and hyphens removed. The source
  trims once more after the removal, so the two differ on the label \<open>! a\<close>.
\<close>

theorem clean_commodity_name_spec_counterexample:
  "clean_commodity_name ''! a'' = ''a'' \<and> clean_spec ''! a'' = '' a''
   \<and> clean_commodity_name ''! a'' \<noteq> clean_spec ''! a''"
proof -
  have a: "clean_commodity_name ''! a'' = ''a''"
    by (simp add: clean_commodity_name_def string_eval)
  have b: "clean_spec ''! a'' = '' a''"
    by (simp add: clean_spec_def string_eval)
  show ?thesis unfolding a b by simp
qed

text \<open>
  C8, amended: the cleaned label is the text before the first line break, trimmed, with
  every character other than word characters, whitespace and hyphens removed, and then
  trimmed again; it has no surrounding whitespace, no line break and no character other
  than word characters, whitespace and hyphens.
\<close>

theorem clean_commodity_name_amended:
  "clean_commodity_name L = py_strip (clean_spec L)
   \<and> trimmed (clean_commodity_name L)
   \<and> list_all (\<lambda>c. \<not> is_line_break c) (clean_commodity_name L)
   \<and> list_all name_char (clean_commodity_name L)"
proof (intro conjI)
  show "clean_commodity_name L = py_strip (clean_spec L)"
    by (simp add: clean_commodity_name_unfold clean_spec_def)
  show "trimmed (clean_commodity_name L)"
    by (simp add: clean_commodity_name_unfold trimmed_py_strip)
  show "list_all (\<lambda>c. \<not> is_line_break c) (clean_commodity_name L)"
    unfolding list_all_iff using clean_commodity_name_chars by blast
  show "list_all name_char (clean_commodity_name L)"
    unfolding list_all_iff using clean_commodity_name_chars by blast
qed

text \<open>The amended C8 at the label \<open>Lead * \<close>.\<close>

theorem clean_commodity_name_amended_witness:
  "clean_commodity_name ''Lead * '' = py_strip (clean_spec ''Lead * '')
   \<and> trimmed (clean_commodity_name ''Lead * '')
   \<and> list_all (\<lambda>c. \<not> is_line_break c) (clean_commodity_name ''Lead * '')
   \<and> list_all name_char (clean_commodity_name ''Lead * '')
   \<and> clean_commodity_name ''Lead * '' = ''Lead''"
proof -
  have "clean_commodity_name ''Lead * '' = ''Lead''"
    by (simp add: clean_commodity_name_def string_eval)
  then show ?thesis
    using clean_commodity_name_amended [of "''Lead * ''"] by blast
qed

section \<open>Claims about the matcher and the parser\<close>

text \<open>
  C5. A label matches exactly when the lowercase form of some target is a substring of the
  lowercase label; the result is the first such target in the order of the target list,
  and \<open>None\<close> when there is none. The label \<open>COBALT ORE\<close> matches the target \<open>Cobalt\<close>.
\<close>

theorem is_target_commodity_first_match:
  "is_target_commodity targets label =
     List.find (\<lambda>t. sublist (py_lower t) (py_lower label)) targets
   \<and> (is_target_commodity targets label = None \<longleftrightarrow>
        \<not> (\<exists>t \<in> set targets. sublist (py_lower t) (py_lower label)))
   \<and> (is_target_commodity targets label = Some target \<longleftrightarrow>
        (\<exists>i < length targets. targets ! i = target
           \<and> sublist (py_lower target) (py_lower label)
           \<and> (\<forall>j < i. \<not> sublist (py_lower (targets ! j)) (py_lower label))))
   \<and> is_target_commodity [''Cobalt''] ''COBALT ORE'' = Some ''Cobalt''"
proof -
  have f: "is_target_commodity targets label =
     List.find (\<lambda>t. sublist (py_lower t) (py_lower label)) targets"
    by (simp add: is_target_commodity_find py_in_sublist)
  have n: "is_target_commodity targets label = None \<longleftrightarrow>
        \<not> (\<exists>t \<in> set targets. sublist (py_lower t) (py_lower label))"
    by (auto simp: f find_None_iff)
  have s: "is_target_commodity targets label = Some target \<longleftrightarrow>
        (\<exists>i < length targets. targets ! i = target
           \<and> sublist (py_lower target) (py_lower label)
           \<and> (\<forall>j < i. \<not> sublist (py_lower (targets ! j)) (py_lower label)))"
    unfolding f find_Some_iff by blast
  have e: "is_target_commodity [''Cobalt''] ''COBALT ORE'' = Some ''Cobalt''"
    by (simp add: string_eval)
  from f n s e show ?thesis by blast
qed

text \<open>C5 at the default target list and the label \<open>lead ore\<close>.\<close>

theorem is_target_commodity_first_match_witness:
  "is_target_commodity [''Lithium'', ''Lead'', ''Cobalt''] ''lead ore'' = Some ''Lead''"
proof -
  have "is_target_commodity [''Lithium'', ''Lead'', ''Cobalt''] ''lead ore'' =
     List.find (\<lambda>t. sublist (py_lower t) (py_lower ''lead ore'')) [''Lithium'', ''Lead'', ''Cobalt'']"
    using is_target_commodity_first_match [of "[''Lithium'', ''Lead'', ''Cobalt'']" "''lead ore''"]
    by blast
  then show ?thesis
    by (simp add: string_eval py_in_sublist [symmetric])
qed

text \<open>
  C4. For every text, \<open>parse_price\<close> keeps the digits, periods and commas, removes the
  commas, returns \<open>None\<close> when nothing is left, and otherwise reads what is left as a
  floating-point number; the text \<open>1,234.50\<close> gives 1234.5 and \<open>N/A\<close> gives \<open>None\<close>.
\<close>

theorem parse_price_algorithm:
  "parse_price (Some (PStr s)) =
     Inr (let kept = filter price_char s;
              clean = filter (\<lambda>c. c \<noteq> CHR '','') kept
          in if clean = [] then None else py_float clean)
   \<and> filter (\<lambda>c. c \<noteq> CHR '','') (filter price_char s) =
       filter (\<lambda>c. is_digit c \<or> c = CHR ''.'') s
   \<and> parse_price (Some (PStr ''1,234.50'')) = Inr (Some (Finite (2469 / 2)))
   \<and> parse_price (Some (PStr ''N/A'')) = Inr None"
proof -
  have fl: "floor_log2 123450 100 = 10"
    by (simp add: floor_log2_def compute_floorlog pow2_def)
  have rd: "round_double 123450 100 = Finite (2469 / 2)"
    by (simp add: round_double_def fl pow2_def round_half_even_def)
  have pf: "py_float ''1234.50'' = Some (Finite (2469 / 2))"
    by (simp add: py_float_def string_eval digits_val_def rd)
  have e1: "parse_price (Some (PStr ''1,234.50'')) = Inr (Some (Finite (2469 / 2)))"
    by (simp add: string_eval pf)
  have e2: "parse_price (Some (PStr ''N/A'')) = Inr None"
    by (simp add: string_eval)
  have g: "parse_price (Some (PStr s)) =
     Inr (let kept = filter price_char s;
              clean = filter (\<lambda>c. c \<noteq> CHR '','') kept
          in if clean = [] then None else py_float clean)"
    by (simp add: Let_def)
  from g filter_price_clean e1 e2 show ?thesis by blast
qed

text \<open>C4 at the text \<open>$ 17.5\<close>: the dollar sign and the space are removed, 17.5 is read.\<close>

theorem parse_price_algorithm_witness:
  "parse_price (Some (PStr ''$ 17.5'')) =
     Inr (let kept = filter price_char ''$ 17.5'';
              clean = filter (\<lambda>c. c \<noteq> CHR '','') kept
          in if clean = [] then None else py_float clean)
   \<and> filter (\<lambda>c. c \<noteq> CHR '','') (filter price_char ''$ 17.5'') = ''17.5''
   \<and> py_float ''17.5'' = Some (Finite (35 / 2))"
proof -
  have f: "filter (\<lambda>c. is_digit c \<or> c = CHR ''.'') ''$ 17.5'' = ''17.5''"
    by (simp add: string_eval)
  have fl: "floor_log2 175 10 = 4"
    by (simp add: floor_log2_def compute_floorlog pow2_def)
  have rd: "round_double 175 10 = Finite (35 / 2)"
    by (simp add: round_double_def fl pow2_def round_half_even_def)
  have p: "py_float ''17.5'' = Some (Finite (35 / 2))"
    by (simp add: py_float_def string_eval digits_val_def rd)
  from parse_price_algorithm [of "''$ 17.5''"] f p show ?thesis by simp
qed

section \<open>Claims about the price extractor\<close>

lemma first_truthy_four:
  "extract_price_from_cell c =
     (if truthy (strategy1 c) then strategy1 c
      else if truthy (strategy2 c) then strategy2 c
      else if truthy (strategy3 c) then strategy3 c
      else if get_text c \<noteq> [] then Some (PStr (get_text c)) else None)"
  by (simp add: extract_price_from_cell_def Let_def strategy4_def)

lemma strategy3_Some:
  "strategy3 c = Some r \<Longrightarrow> \<exists>s. r = PStr s \<and> list_ex is_digit s"
  unfolding strategy3_def by (auto simp: find_Some_iff)

text \<open>
  C2, amended: \<open>extract_price_from_cell\<close> tries the four strategies in the stated order
  and returns the first result that is true; when strategies 1 and 2 find no element,
  the text of strategy 3 is returned when there is one (it holds a digit), and otherwise
  the full visible text of the cell when that is not empty and \<open>None\<close> when it is empty.
\<close>

theorem extract_price_from_cell_order:
  "extract_price_from_cell c =
     (if truthy (strategy1 c) then strategy1 c
      else if truthy (strategy2 c) then strategy2 c
      else if truthy (strategy3 c) then strategy3 c
      else if get_text c \<noteq> [] then Some (PStr (get_text c)) else None)
   \<and> (strategy1 c = None \<longrightarrow> strategy2 c = None \<longrightarrow> strategy3 c = None \<longrightarrow>
        extract_price_from_cell c =
          (if get_text c = [] then None else Some (PStr (get_text c))))
   \<and> (\<forall>r. strategy1 c = None \<longrightarrow> strategy2 c = None \<longrightarrow> strategy3 c = Some r \<longrightarrow>
        extract_price_from_cell c = Some r \<and> (\<exists>s. r = PStr s \<and> list_ex is_digit s))"
proof (intro conjI allI impI)
  show "extract_price_from_cell c =
     (if truthy (strategy1 c) then strategy1 c
      else if truthy (strategy2 c) then strategy2 c
      else if truthy (strategy3 c) then strategy3 c
      else if get_text c \<noteq> [] then Some (PStr (get_text c)) else None)"
    by (rule first_truthy_four)
next
  assume "strategy1 c = None" "strategy2 c = None" "strategy3 c = None"
  then show "extract_price_from_cell c =
          (if get_text c = [] then None else Some (PStr (get_text c)))"
    by (simp add: first_truthy_four)
next
  fix r
  assume a: "strategy1 c = None" "strategy2 c = None" and s3: "strategy3 c = Some r"
  from s3 obtain s where s: "r = PStr s" "list_ex is_digit s"
    using strategy3_Some by blast
  then have "s \<noteq> []" by auto
  with a s3 s show "extract_price_from_cell c = Some r"
    by (simp add: first_truthy_four)
  from s show "\<exists>s. r = PStr s \<and> list_ex is_digit s" by blast
qed

lemmas tree_eval = find_all_def get_text_def strategy1_def strategy2_def strategy3_def
  strategy4_def extract_price_from_cell_def search_price_def

text \<open>
  C2, as stated: when strategies 1 to 3 fail the cell's text is returned, possibly empty,
  never \<open>None\<close>, and the result is a text. An empty cell gives \<open>None\<close>, and a
  descendant with the reserved identifier is returned as an element.
\<close>

theorem extract_price_from_cell_counterexample:
  "strategy1 (Tag ''td'' None [] []) = None
   \<and> strategy2 (Tag ''td'' None [] []) = None
   \<and> strategy3 (Tag ''td'' None [] []) = None
   \<and> get_text (Tag ''td'' None [] []) = []
   \<and> extract_price_from_cell (Tag ''td'' None [] []) = None
   \<and> extract_price_from_cell
        (Tag ''td'' None [] [Tag ''span'' (Some ''p'') [] [NavigableString ''7'']]) =
       Some (PTag (Tag ''span'' (Some ''p'') [] [NavigableString ''7'']))"
  by (simp add: tree_eval)

text \<open>The amended C2 at a cell of plain text and at a cell with a nested element.\<close>

theorem extract_price_from_cell_order_witness:
  "strategy1 (Tag ''td'' None [] [NavigableString '' 42 '']) = None
   \<and> strategy2 (Tag ''td'' None [] [NavigableString '' 42 '']) = None
   \<and> strategy3 (Tag ''td'' None [] [NavigableString '' 42 '']) = None
   \<and> extract_price_from_cell (Tag ''td'' None [] [NavigableString '' 42 '']) =
       Some (PStr ''42'')
   \<and> strategy3 (Tag ''td'' None [] [Tag ''span'' None [] [NavigableString ''1,234.50'']]) =
       Some (PStr ''1,234.50'')
   \<and> extract_price_from_cell
        (Tag ''td'' None [] [Tag ''span'' None [] [NavigableString ''1,234.50'']]) =
       Some (PStr ''1,234.50'')"
proof -
  let ?c = "Tag ''td'' None [] [NavigableString '' 42 '']"
  let ?d = "Tag ''td'' None [] [Tag ''span'' None [] [NavigableString ''1,234.50'']]"
  have s: "strategy1 ?c = None" "strategy2 ?c = None" "strategy3 ?c = None"
    by (simp_all add: tree_eval string_eval)
  have g: "get_text ?c = ''42''"
    by (simp add: tree_eval string_eval)
  have t: "strategy1 ?d = None" "strategy2 ?d = None" "strategy3 ?d = Some (PStr ''1,234.50'')"
    by (simp_all add: tree_eval string_eval)
  from s g t extract_price_from_cell_order [of ?c] extract_price_from_cell_order [of ?d]
  show ?thesis by simp
qed

section \<open>Facts about the scan\<close>

lemma is_target_commodity_mem:
  "is_target_commodity targets label = Some t \<Longrightarrow> t \<in> set targets"
  by (induction targets) (auto split: if_splits)

lemma pow2_pos: "0 < pow2 k"
  by (simp add: pow2_def)

lemma round_half_even_nonneg: "0 \<le> x \<Longrightarrow> 0 \<le> round_half_even x"
proof -
  assume "0 \<le> x"
  then have "0 \<le> \<lfloor>x\<rfloor>" by simp
  then show ?thesis by (simp add: round_half_even_def Let_def)
qed

lemma round_double_nonneg: "float_nonneg (round_double a b)"
proof -
  let ?ulp = "pow2 (max (floor_log2 a b) (- 1022) - 52)"
  have "0 \<le> (of_nat a / of_nat b :: rat) / ?ulp"
    using pow2_pos [of "max (floor_log2 a b) (- 1022) - 52"] by simp
  then have "0 \<le> round_half_even (of_nat a / of_nat b / ?ulp)"
    by (rule round_half_even_nonneg)
  then have "0 \<le> (of_int (round_half_even (of_nat a / of_nat b / ?ulp)) :: rat) * ?ulp"
    using pow2_pos [of "max (floor_log2 a b) (- 1022) - 52"] by simp
  then show ?thesis
    by (simp add: round_double_def float_nonneg_def Let_def)
qed

lemma py_float_nonneg: "py_float s = Some f \<Longrightarrow> float_nonneg f"
  by (auto simp: py_float_def Let_def round_double_nonneg split: list.splits if_splits)

lemma parse_price_nonneg: "parse_price v = Inr (Some f) \<Longrightarrow> float_nonneg f"
proof (cases v)
  case None
  assume "parse_price v = Inr (Some f)"
  with None show ?thesis by simp
next
  case (Some a)
  assume p: "parse_price v = Inr (Some f)"
  show ?thesis
  proof (cases a)
    case (PTag e)
    with Some p show ?thesis by simp
  next
    case (PStr s)
    with Some p show ?thesis
      by (auto simp: Let_def py_float_nonneg split: if_splits)
  qed
qed

lemma scan_row_cases:
  "scan_row targets stamp results row = Inr results' \<Longrightarrow>
     results' = results \<or>
     (\<exists>t p. t \<in> set targets \<and> float_nonneg p \<and>
        results' = results(t \<mapsto> new_CommodityPrice t p stamp))"
  unfolding scan_row_def Let_def
  by (auto split: if_splits option.splits sum.splits
      dest: is_target_commodity_mem parse_price_nonneg)

lemma scan_row_good:
  "good_results targets results \<Longrightarrow> scan_row targets stamp results row = Inr results' \<Longrightarrow>
     good_results targets results'"
proof -
  assume g: "good_results targets results"
    and s: "scan_row targets stamp results row = Inr results'"
  from scan_row_cases [OF s] show ?thesis
  proof
    assume "results' = results"
    with g show ?thesis by simp
  next
    assume "\<exists>t p. t \<in> set targets \<and> float_nonneg p \<and>
        results' = results(t \<mapsto> new_CommodityPrice t p stamp)"
    then obtain t p where t: "t \<in> set targets" and p: "float_nonneg p"
      and r: "results' = results(t \<mapsto> new_CommodityPrice t p stamp)"
      by blast
    show ?thesis
      unfolding good_results_def
    proof (intro allI impI)
      fix k rec
      assume a: "results' k = Some rec"
      show "k \<in> set targets \<and> name rec = k \<and> float_nonneg (price rec)"
      proof (cases "k = t")
        case True
        with a r have "rec = new_CommodityPrice t p stamp" by simp
        with True t p show ?thesis by (simp add: new_CommodityPrice_def)
      next
        case False
        with a r have "results k = Some rec" by simp
        with g show ?thesis by (simp add: good_results_def)
      qed
    qed
  qed
qed

lemma scan_rows_good:
  "good_results targets results \<Longrightarrow> scan_rows targets stamp results rows = Inr results' \<Longrightarrow>
     good_results targets results'"
proof (induction rows arbitrary: results)
  case Nil
  then show ?case by simp
next
  case (Cons row rows)
  from Cons.prems(2) obtain mid where m: "scan_row targets stamp results row = Inr mid"
    and r: "scan_rows targets stamp mid rows = Inr results'"
    by (auto split: sum.splits)
  from scan_row_good [OF Cons.prems(1) m] have "good_results targets mid" .
  then show ?case using r by (rule Cons.IH)
qed

lemma scan_table_good:
  "good_results targets results \<Longrightarrow> scan_table targets stamp results table = Inr results' \<Longrightarrow>
     good_results targets results'"
  unfolding scan_table_def Let_def
  by (auto split: if_splits intro: scan_rows_good)

lemma scan_tables_good:
  "good_results targets results \<Longrightarrow> scan_tables targets stamp results tables = Inr results' \<Longrightarrow>
     good_results targets results'"
proof (induction tables arbitrary: results)
  case Nil
  then show ?case by simp
next
  case (Cons table tables)
  from Cons.prems(2) obtain mid where m: "scan_table targets stamp results table = Inr mid"
    and r: "scan_tables targets stamp mid tables = Inr results'"
    by (auto split: sum.splits)
  from scan_table_good [OF Cons.prems(1) m] have "good_results targets mid" .
  then show ?case using r by (rule Cons.IH)
qed

lemma good_results_empty: "good_results targets Map.empty"
  by (simp add: good_results_def)

lemma scrape_commodities_good: "good_results targets (scrape_commodities targets stamp fetched)"
proof (cases fetched)
  case (Inl err)
  then show ?thesis by (simp add: scrape_commodities_def good_results_empty)
next
  case (Inr soup)
  show ?thesis
  proof (cases "scrape_all_tables targets stamp soup")
    case (Inl err)
    with Inr show ?thesis by (simp add: scrape_commodities_def good_results_empty)
  next
    case r: (Inr prices)
    then have "good_results targets prices"
      unfolding scrape_all_tables_def using good_results_empty scan_tables_good by blast
    with Inr r show ?thesis by (simp add: scrape_commodities_def)
  qed
qed

section \<open>Claims about the result mapping\<close>

text \<open>
  C9. Every key of the mapping a run returns is an element of the configured target list,
  and the record stored under a key carries that key as its name.
\<close>

theorem result_keys_are_targets:
  "scrape_commodities targets stamp fetched k = Some r \<Longrightarrow> k \<in> set targets \<and> name r = k"
  using scrape_commodities_good [of targets stamp fetched]
  by (simp add: good_results_def)

section \<open>The scan on the example documents\<close>

lemmas float_eval = py_float_def digits_val_def round_double_def floor_log2_def
  compute_floorlog pow2_def round_half_even_def

lemmas scan_eval = scan_row_def scan_table_def scrape_all_tables_def scrape_commodities_def
  clean_commodity_name_def Let_def

lemmas fixture_eval = cell_def row2_def header_def page_def
  default_targets_def init_target_commodities_def

lemma scan_row_lithium:
  "scan_row default_targets stamp results (row2 (cell ''Lithium'') (cell ''100'')) =
     Inr (results(''Lithium'' \<mapsto> new_CommodityPrice ''Lithium'' (Finite 100) stamp))"
  by (simp add: scan_eval fixture_eval tree_eval string_eval float_eval)

lemma scan_row_lead_empty:
  "scan_row default_targets stamp results (row2 (cell ''Lead'') empty_cell) = Inl TypeError"
  by (simp add: scan_eval fixture_eval empty_cell_def tree_eval string_eval)

lemma scan_row_lithium_200:
  "scan_row default_targets stamp results (row2 (cell ''Lithium'') (cell ''200'')) =
     Inr (results(''Lithium'' \<mapsto> new_CommodityPrice ''Lithium'' (Finite 200) stamp))"
  by (simp add: scan_eval fixture_eval tree_eval string_eval float_eval)

lemma scrape_page_1:
  "scrape_all_tables targets stamp (page [header, row2 (cell a) (cell b)]) =
     scan_row targets stamp Map.empty (row2 (cell a) (cell b))"
  by (simp add: scrape_all_tables_def scan_table_def page_def header_def row2_def cell_def
      find_all_def split: sum.splits)

lemma py_strip_no_space: "\<forall>c \<in> set s. \<not> is_space c \<Longrightarrow> py_strip s = s"
proof (rule py_strip_trimmed_id)
  assume a: "\<forall>c \<in> set s. \<not> is_space c"
  show "trimmed s"
  proof (cases "s = []")
    case True
    then show ?thesis by (simp add: trimmed_def)
  next
    case False
    then have "hd s \<in> set s" "last s \<in> set s" by simp_all
    with a show ?thesis by (simp add: trimmed_def)
  qed
qed

lemma digit_not_space: "is_digit c \<Longrightarrow> \<not> is_space c"
  by (auto simp: is_digit_def is_space_def Let_def)

lemma py_float_digits:
  "list_all is_digit s \<Longrightarrow> s \<noteq> [] \<Longrightarrow> py_float s = Some (round_double (digits_val s) 1)"
proof -
  assume a: "list_all is_digit s" and n: "s \<noteq> []"
  from a have tw: "takeWhile is_digit s = s" and dw: "dropWhile is_digit s = []"
    by (simp_all add: list_all_iff)
  show ?thesis
    unfolding py_float_def Let_def tw dw using n by simp
qed

lemma parse_price_digits:
  "list_all is_digit s \<Longrightarrow> s \<noteq> [] \<Longrightarrow>
     parse_price (Some (PStr s)) = Inr (Some (round_double (digits_val s) 1))"
proof -
  assume a: "list_all is_digit s" and n: "s \<noteq> []"
  have c: "\<not> is_digit CHR '',''" by (simp add: string_eval)
  from a have f1: "filter price_char s = s"
    by (simp add: list_all_iff price_char_def)
  from a c have f2: "filter (\<lambda>c. c \<noteq> CHR '','') s = s"
    by (auto simp: list_all_iff filter_id_conv)
  show ?thesis
    unfolding parse_price.simps Let_def f1 f2 using n py_float_digits [OF a n] by simp
qed

lemma extract_cell_digits:
  "list_all is_digit s \<Longrightarrow> s \<noteq> [] \<Longrightarrow> extract_price_from_cell (cell s) = Some (PStr s)"
proof -
  assume a: "list_all is_digit s" and n: "s \<noteq> []"
  from a have "py_strip s = s"
    by (intro py_strip_no_space) (auto simp: list_all_iff digit_not_space)
  with n show ?thesis by (simp add: cell_def tree_eval)
qed

lemma scan_row_lead_digits:
  "list_all is_digit s \<Longrightarrow> s \<noteq> [] \<Longrightarrow>
     scan_row default_targets stamp results (row2 (cell ''Lead'') (cell s)) =
       Inr (results(''Lead'' \<mapsto> new_CommodityPrice ''Lead'' (round_double (digits_val s) 1) stamp))"
proof -
  assume a: "list_all is_digit s" and n: "s \<noteq> []"
  have c: "find_all [''td'', ''th''] (row2 (cell ''Lead'') (cell s)) = [cell ''Lead'', cell s]"
    by (simp add: row2_def cell_def find_all_def)
  have g: "get_text (cell ''Lead'') = ''Lead''"
    by (simp add: cell_def tree_eval string_eval)
  have k: "clean_commodity_name ''Lead'' = ''Lead''"
    by (simp add: clean_commodity_name_def string_eval)
  have t: "is_target_commodity default_targets ''Lead'' = Some ''Lead''"
    by (simp add: default_targets_def init_target_commodities_def string_eval)
  show ?thesis
    by (simp add: scan_row_def c g k t extract_cell_digits [OF a n] parse_price_digits [OF a n]
        del: parse_price.simps)
qed

lemma digits_val_power_of_ten: "digits_val (CHR ''1'' # replicate n CHR ''0'') = 10 ^ n"
proof -
  have "foldl (\<lambda>a c. 10 * a + (code_point c - 48)) a (replicate n CHR ''0'') = a * 10 ^ n" for a
    by (induction n arbitrary: a) (simp_all add: code_point_def)
  then show ?thesis by (simp add: digits_val_def code_point_def)
qed

lemma round_double_overflow: "round_double (10 ^ 309) 1 = PosInf"
  by (simp add: round_double_def)

section \<open>Claims about the prices of the records\<close>

text \<open>
  C3, as stated: the price of every record of the result mapping is non-negative and
  finite. A price text of a one followed by 309 zeros is read as positive infinity and
  stored.
\<close>

theorem infinite_price_counterexample:
  "map_option price
     (scrape_commodities default_targets 0
        (Inr (page [header, row2 (cell ''Lead'') (cell (CHR ''1'' # replicate 309 CHR ''0''))]))
        ''Lead'') = Some PosInf
   \<and> \<not> float_finite PosInf"
proof -
  let ?s = "CHR ''1'' # replicate 309 CHR ''0''"
  have d: "list_all is_digit ?s" by (simp add: list_all_iff string_eval)
  have n: "?s \<noteq> []" by simp
  have "scrape_all_tables default_targets 0 (page [header, row2 (cell ''Lead'') (cell ?s)]) =
      Inr (Map.empty(''Lead'' \<mapsto> new_CommodityPrice ''Lead'' PosInf 0))"
    by (simp only: scrape_page_1 scan_row_lead_digits [OF d n] digits_val_power_of_ten
        round_double_overflow)
  then show ?thesis
    by (simp add: scrape_commodities_def new_CommodityPrice_def float_finite_def)
qed

text \<open>
  C3, amended: the price of every record of the result mapping of a run is non-negative
  (a finite value or positive infinity, never a NaN); a row whose price text
  \<open>parse_price\<close> reads as \<open>None\<close> leaves the mapping as it was, and a row on whose
  price \<open>parse_price\<close> raises writes nothing either.
\<close>

theorem record_prices_nonneg:
  "(scrape_commodities targets stamp fetched k = Some r \<longrightarrow> float_nonneg (price r))
   \<and> (parse_price (extract_price_from_cell (find_all [''td'', ''th''] row ! 1)) = Inr None \<longrightarrow>
        scan_row targets stamp results row = Inr results)
   \<and> (parse_price (extract_price_from_cell (find_all [''td'', ''th''] row ! 1)) = Inl err \<longrightarrow>
        scan_row targets stamp results row = Inr results
        \<or> scan_row targets stamp results row = Inl err)"
proof (intro conjI)
  show "scrape_commodities targets stamp fetched k = Some r \<longrightarrow> float_nonneg (price r)"
    using scrape_commodities_good [of targets stamp fetched]
    by (simp add: good_results_def)
  show "parse_price (extract_price_from_cell (find_all [''td'', ''th''] row ! 1)) = Inr None \<longrightarrow>
        scan_row targets stamp results row = Inr results"
    by (simp add: scan_row_def Let_def split: option.splits)
  show "parse_price (extract_price_from_cell (find_all [''td'', ''th''] row ! 1)) = Inl err \<longrightarrow>
        scan_row targets stamp results row = Inr results
        \<or> scan_row targets stamp results row = Inl err"
    by (simp add: scan_row_def Let_def split: option.splits)
qed

text \<open>The amended C3 at a document with one valid row, and at a row whose price is \<open>N/A\<close>.\<close>

theorem record_prices_nonneg_witness:
  "scrape_commodities default_targets 0
     (Inr (page [header, row2 (cell ''Lithium'') (cell ''100'')])) ''Lithium'' =
     Some (new_CommodityPrice ''Lithium'' (Finite 100) 0)
   \<and> float_nonneg (price (new_CommodityPrice ''Lithium'' (Finite 100) 0))
   \<and> parse_price (extract_price_from_cell
        (find_all [''td'', ''th''] (row2 (cell ''Lead'') (cell ''N/A'')) ! 1)) = Inr None
   \<and> scan_row default_targets 0 Map.empty (row2 (cell ''Lead'') (cell ''N/A'')) = Inr Map.empty"
proof -
  let ?row = "row2 (cell ''Lead'') (cell ''N/A'')"
  have e: "scrape_commodities default_targets 0
     (Inr (page [header, row2 (cell ''Lithium'') (cell ''100'')])) ''Lithium'' =
     Some (new_CommodityPrice ''Lithium'' (Finite 100) 0)"
    by (simp add: scrape_commodities_def scrape_page_1 scan_row_lithium)
  have p: "parse_price (extract_price_from_cell (find_all [''td'', ''th''] ?row ! 1)) = Inr None"
    by (simp add: fixture_eval tree_eval string_eval)
  from record_prices_nonneg [of default_targets 0 _ "''Lithium''" _ ?row Map.empty TypeError] e p
  show ?thesis by blast
qed

text \<open>C9 at a document with one valid row.\<close>

theorem result_keys_are_targets_witness:
  "scrape_commodities default_targets 0
     (Inr (page [header, row2 (cell ''Lithium'') (cell ''100'')])) ''Lithium'' =
     Some (new_CommodityPrice ''Lithium'' (Finite 100) 0)
   \<and> ''Lithium'' \<in> set default_targets
   \<and> name (new_CommodityPrice ''Lithium'' (Finite 100) 0) = ''Lithium''"
proof -
  have e: "scrape_commodities default_targets 0
     (Inr (page [header, row2 (cell ''Lithium'') (cell ''100'')])) ''Lithium'' =
     Some (new_CommodityPrice ''Lithium'' (Finite 100) 0)"
    by (simp add: scrape_commodities_def scrape_page_1 scan_row_lithium)
  from result_keys_are_targets [OF e] e show ?thesis by blast
qed

section \<open>The scan on a price cell that is empty or holds a marked element\<close>

lemma scrape_page_2:
  "scrape_all_tables targets stamp (page [header, row2 (cell a) (cell b), row2 (cell c) empty_cell]) =
     scan_rows targets stamp Map.empty [row2 (cell a) (cell b), row2 (cell c) empty_cell]"
  by (simp add: scrape_all_tables_def scan_table_def page_def header_def row2_def cell_def
      empty_cell_def find_all_def split: sum.splits)

lemma scrape_page_3:
  "scrape_all_tables targets stamp
     (page [header, row2 (cell a) (cell b), row2 (cell c) (cell d), row2 (cell e) empty_cell]) =
     scan_rows targets stamp Map.empty
       [row2 (cell a) (cell b), row2 (cell c) (cell d), row2 (cell e) empty_cell]"
  by (simp add: scrape_all_tables_def scan_table_def page_def header_def row2_def cell_def
      empty_cell_def find_all_def split: sum.splits)

lemma scrape_page_2_full:
  "scrape_all_tables targets stamp (page [header, row2 (cell a) (cell b), row2 (cell c) (cell d)]) =
     scan_rows targets stamp Map.empty [row2 (cell a) (cell b), row2 (cell c) (cell d)]"
  by (simp add: scrape_all_tables_def scan_table_def page_def header_def row2_def cell_def
      find_all_def split: sum.splits)

lemma scan_row_marked:
  "scan_row default_targets stamp results (row2 (cell ''Lithium'') (marked_cell ''100'')) =
     Inl TypeError"
  by (simp add: scan_eval fixture_eval marked_cell_def tree_eval string_eval)

lemma scrape_page_marked:
  "scrape_all_tables targets stamp (page [header, row2 (cell a) (marked_cell b)]) =
     scan_row targets stamp Map.empty (row2 (cell a) (marked_cell b))"
  by (simp add: scrape_all_tables_def scan_table_def page_def header_def row2_def cell_def
      marked_cell_def find_all_def split: sum.splits)

text \<open>
  C1 on the code: a document whose table has a valid Lithium row and then a Lead row with
  an empty price cell. The extractor returns \<open>None\<close> for the empty cell, \<open>parse_price\<close>
  raises \<open>TypeError\<close>, the scan ends there and the run returns the empty mapping: the
  Lithium record collected before is gone. The same happens when the price sits in an
  element with the reserved identifier.
\<close>

theorem scan_abort_discards_records:
  "scan_rows default_targets 0 Map.empty [row2 (cell ''Lithium'') (cell ''100'')] =
     Inr (Map.empty(''Lithium'' \<mapsto> new_CommodityPrice ''Lithium'' (Finite 100) 0))
   \<and> scrape_all_tables default_targets 0
        (page [header, row2 (cell ''Lithium'') (cell ''100''), row2 (cell ''Lead'') empty_cell]) =
       Inl TypeError
   \<and> scrape_commodities default_targets 0
        (Inr (page [header, row2 (cell ''Lithium'') (cell ''100''), row2 (cell ''Lead'') empty_cell])) =
       Map.empty
   \<and> scrape_commodities default_targets 0
        (Inr (page [header, row2 (cell ''Lithium'') (marked_cell ''100'')])) = Map.empty"
  by (simp add: scrape_commodities_def scrape_page_2 scrape_page_marked scan_row_lithium
      scan_row_lead_empty scan_row_marked)

text \<open>
  C7 on the code: two valid Lithium rows followed by a Lead row with an empty price cell.
  Without the Lead row the mapping holds Lithium with the price of the second row; with
  it the scan raises \<open>TypeError\<close> and the run returns a mapping with no Lithium record.
\<close>

theorem last_write_lost_on_abort:
  "scrape_commodities default_targets 0
     (Inr (page [header, row2 (cell ''Lithium'') (cell ''100''),
                 row2 (cell ''Lithium'') (cell ''200'')])) ''Lithium'' =
     Some (new_CommodityPrice ''Lithium'' (Finite 200) 0)
   \<and> scrape_commodities default_targets 0
        (Inr (page [header, row2 (cell ''Lithium'') (cell ''100''),
                    row2 (cell ''Lithium'') (cell ''200''), row2 (cell ''Lead'') empty_cell]))
        ''Lithium'' = None"
  by (simp add: scrape_commodities_def scrape_page_2_full scrape_page_3 scan_row_lithium
      scan_row_lithium_200 scan_row_lead_empty)

section \<open>The order of the writes\<close>

lemma scan_row_entry:
  "scan_row targets stamp results row = Inr results' \<Longrightarrow>
     results' = (case row_entry targets row of
                   None \<Rightarrow> results
                 | Some (t, p) \<Rightarrow> results(t \<mapsto> new_CommodityPrice t p stamp))"
  unfolding scan_row_def row_entry_def Let_def
  by (auto split: if_splits option.splits sum.splits)

lemma target_prices_Cons:
  "target_prices targets t (row # rows) =
     (case row_entry targets row of
        None \<Rightarrow> target_prices targets t rows
      | Some (u, p) \<Rightarrow> if u = t then p # target_prices targets t rows
                       else target_prices targets t rows)"
  by (auto simp: target_prices_def List.map_filter_simps split: option.splits)

lemma scan_rows_last_write:
  "scan_rows targets stamp results rows = Inr results' \<Longrightarrow>
     results' t =
       (if target_prices targets t rows = [] then results t
        else Some (new_CommodityPrice t (last (target_prices targets t rows)) stamp))"
proof (induction rows arbitrary: results)
  case Nil
  then show ?case by (simp add: target_prices_def List.map_filter_simps)
next
  case (Cons row rows)
  from Cons.prems obtain mid where m: "scan_row targets stamp results row = Inr mid"
    and r: "scan_rows targets stamp mid rows = Inr results'"
    by (auto split: sum.splits)
  note ih = Cons.IH [OF r]
  note e = scan_row_entry [OF m]
  show ?case
  proof (cases "row_entry targets row")
    case None
    with e ih show ?thesis by (simp add: target_prices_Cons)
  next
    case (Some a)
    obtain u p where a: "a = (u, p)" by (cases a)
    show ?thesis
    proof (cases "u = t")
      case True
      with e ih Some a show ?thesis by (simp add: target_prices_Cons)
    next
      case False
      with e ih Some a show ?thesis by (simp add: target_prices_Cons)
    qed
  qed
qed

lemma scan_rows_append:
  "scan_rows targets stamp results (xs @ ys) =
     (case scan_rows targets stamp results xs of
        Inl err \<Rightarrow> Inl err
      | Inr mid \<Rightarrow> scan_rows targets stamp mid ys)"
  by (induction xs arbitrary: results) (auto split: sum.splits)

lemma scan_table_data_rows:
  "scan_table targets stamp results table = scan_rows targets stamp results (data_rows table)"
  by (simp add: scan_table_def data_rows_def Let_def)

lemma scan_tables_rows:
  "scan_tables targets stamp results tables =
     scan_rows targets stamp results (concat (map data_rows tables))"
  by (induction tables arbitrary: results)
     (auto simp: scan_rows_append scan_table_data_rows split: sum.splits)

lemma last_write_wins:
  "scrape_all_tables targets stamp soup = Inr results \<Longrightarrow>
     results t =
       (if target_prices targets t (document_rows soup) = [] then None
        else Some (new_CommodityPrice t
               (last (target_prices targets t (document_rows soup))) stamp))"
  unfolding scrape_all_tables_def scan_tables_rows document_rows_def
  by (drule scan_rows_last_write [where t = t]) simp

section \<open>Claims about the shape of tables and rows\<close>

lemma scan_tables_short:
  "\<forall>t \<in> set tables. length (find_all [''tr''] t) < 2 \<Longrightarrow>
     scan_tables targets stamp results tables = Inr results"
  by (induction tables) (simp_all add: scan_table_def)

text \<open>
  C6, as stated: the first row of a table is never data, and a table with exactly one
  row contributes no record whatever it holds. The rows of a table are all the \<open>tr\<close>
  elements below it, so the only row of a table nested in another table is a later row
  of the enclosing table, and is written from there.
\<close>

theorem nested_table_counterexample:
  "find_all [''tr''] (Tag ''table'' None [] [row2 (cell ''Lithium'') (cell ''100'')]) =
     [row2 (cell ''Lithium'') (cell ''100'')]
   \<and> scrape_all_tables default_targets 0
        (Tag ''[document]'' None []
           [Tag ''table'' None []
              [Tag ''tr'' None []
                 [Tag ''th'' None []
                    [Tag ''table'' None [] [row2 (cell ''Lithium'') (cell ''100'')]]]]]) =
       Inr (Map.empty(''Lithium'' \<mapsto> new_CommodityPrice ''Lithium'' (Finite 100) 0))"
proof -
  have t: "find_all [''table'']
        (Tag ''[document]'' None []
           [Tag ''table'' None []
              [Tag ''tr'' None []
                 [Tag ''th'' None []
                    [Tag ''table'' None [] [row2 (cell ''Lithium'') (cell ''100'')]]]]]) =
      [Tag ''table'' None []
         [Tag ''tr'' None []
            [Tag ''th'' None [] [Tag ''table'' None [] [row2 (cell ''Lithium'') (cell ''100'')]]]],
       Tag ''table'' None [] [row2 (cell ''Lithium'') (cell ''100'')]]"
    by (simp add: find_all_def row2_def cell_def)
  have outer: "find_all [''tr'']
        (Tag ''table'' None []
           [Tag ''tr'' None []
              [Tag ''th'' None [] [Tag ''table'' None [] [row2 (cell ''Lithium'') (cell ''100'')]]]]) =
      [Tag ''tr'' None []
         [Tag ''th'' None [] [Tag ''table'' None [] [row2 (cell ''Lithium'') (cell ''100'')]]],
       row2 (cell ''Lithium'') (cell ''100'')]"
    by (simp add: find_all_def row2_def cell_def)
  have inner: "find_all [''tr''] (Tag ''table'' None [] [row2 (cell ''Lithium'') (cell ''100'')]) =
      [row2 (cell ''Lithium'') (cell ''100'')]"
    by (simp add: find_all_def row2_def cell_def)
  show ?thesis
    by (simp add: scrape_all_tables_def scan_table_def t outer inner scan_row_lithium)
qed

text \<open>
  C6, amended: the scan of a table skips it when it has fewer than two rows, never treats
  the first row of the table being scanned as data (the scan of a table does not depend on
  it) and skips a row with fewer than two cells, where the rows of a table are all the row
  elements below it and the cells of a row all the cell elements below it; so the scan of
  a table with exactly one row leaves the mapping as it was, and a document whose tables
  all have fewer than two rows gives the empty mapping.
\<close>

theorem scan_skips_short_tables_and_rows:
  "(length (find_all [''tr''] table) < 2 \<longrightarrow>
      scan_table targets stamp results table = Inr results)
   \<and> (find_all [''tr''] table1 = first1 # rest \<longrightarrow> find_all [''tr''] table2 = first2 # rest \<longrightarrow>
        scan_table targets stamp results table1 = scan_table targets stamp results table2)
   \<and> (length (find_all [''td'', ''th''] row) < 2 \<longrightarrow>
        scan_row targets stamp results row = Inr results)
   \<and> (length (find_all [''tr''] table) = 1 \<longrightarrow>
        scan_table targets stamp results table = Inr results)
   \<and> ((\<forall>t \<in> set (find_all [''table''] soup). length (find_all [''tr''] t) < 2) \<longrightarrow>
        scrape_all_tables targets stamp soup = Inr Map.empty)"
proof (intro conjI impI)
  show "scan_table targets stamp results table = Inr results"
    if "length (find_all [''tr''] table) < 2"
    using that by (simp add: scan_table_def)
  show "scan_table targets stamp results table1 = scan_table targets stamp results table2"
    if "find_all [''tr''] table1 = first1 # rest" "find_all [''tr''] table2 = first2 # rest"
    using that by (simp add: scan_table_def)
  show "scan_row targets stamp results row = Inr results"
    if "length (find_all [''td'', ''th''] row) < 2"
    using that by (simp add: scan_row_def)
  show "scan_table targets stamp results table = Inr results"
    if "length (find_all [''tr''] table) = 1"
    using that by (simp add: scan_table_def)
  show "scrape_all_tables targets stamp soup = Inr Map.empty"
    if "\<forall>t \<in> set (find_all [''table''] soup). length (find_all [''tr''] t) < 2"
    using that by (simp add: scrape_all_tables_def scan_tables_short)
qed

text \<open>
  The amended C6 at a table whose only row is a valid Lithium row, at two tables that differ in their
  first row only, at a row of one cell, and at a document whose only table has one row.
\<close>

theorem scan_skips_short_tables_and_rows_witness:
  "length (find_all [''tr''] (Tag ''table'' None [] [row2 (cell ''Lithium'') (cell ''100'')])) = 1
   \<and> scan_table default_targets 0 Map.empty
        (Tag ''table'' None [] [row2 (cell ''Lithium'') (cell ''100'')]) = Inr Map.empty
   \<and> find_all [''tr'']
        (Tag ''table'' None [] [row2 (cell ''Lithium'') (cell ''100''), row2 (cell ''Lead'') (cell ''7'')]) =
       row2 (cell ''Lithium'') (cell ''100'') # [row2 (cell ''Lead'') (cell ''7'')]
   \<and> find_all [''tr''] (Tag ''table'' None [] [header, row2 (cell ''Lead'') (cell ''7'')]) =
       header # [row2 (cell ''Lead'') (cell ''7'')]
   \<and> scan_table default_targets 0 Map.empty
        (Tag ''table'' None [] [row2 (cell ''Lithium'') (cell ''100''), row2 (cell ''Lead'') (cell ''7'')]) =
       scan_table default_targets 0 Map.empty
        (Tag ''table'' None [] [header, row2 (cell ''Lead'') (cell ''7'')])
   \<and> length (find_all [''td'', ''th''] (Tag ''tr'' None [] [cell ''Lithium''])) < 2
   \<and> scan_row default_targets 0 Map.empty (Tag ''tr'' None [] [cell ''Lithium'']) = Inr Map.empty
   \<and> find_all [''table''] (page [row2 (cell ''Lithium'') (cell ''100'')]) =
       [Tag ''table'' None [] [row2 (cell ''Lithium'') (cell ''100'')]]
   \<and> scrape_all_tables default_targets 0 (page [row2 (cell ''Lithium'') (cell ''100'')]) =
       Inr Map.empty"
proof -
  let ?one = "Tag ''table'' None [] [row2 (cell ''Lithium'') (cell ''100'')]"
  let ?ta = "Tag ''table'' None [] [row2 (cell ''Lithium'') (cell ''100''), row2 (cell ''Lead'') (cell ''7'')]"
  let ?tb = "Tag ''table'' None [] [header, row2 (cell ''Lead'') (cell ''7'')]"
  let ?row = "Tag ''tr'' None [] [cell ''Lithium'']"
  let ?soup = "page [row2 (cell ''Lithium'') (cell ''100'')]"
  have h1: "length (find_all [''tr''] ?one) = 1"
    by (simp add: find_all_def row2_def cell_def)
  have h2: "find_all [''tr''] ?ta =
      row2 (cell ''Lithium'') (cell ''100'') # [row2 (cell ''Lead'') (cell ''7'')]"
    by (simp add: find_all_def row2_def cell_def)
  have h3: "find_all [''tr''] ?tb = header # [row2 (cell ''Lead'') (cell ''7'')]"
    by (simp add: find_all_def row2_def cell_def header_def)
  have h4: "length (find_all [''td'', ''th''] ?row) < 2"
    by (simp add: find_all_def cell_def)
  have h5: "\<forall>t \<in> set (find_all [''table''] ?soup). length (find_all [''tr''] t) < 2"
    by (simp add: find_all_def page_def row2_def cell_def)
  have h6: "find_all [''table''] ?soup = [?one]"
    by (simp add: find_all_def page_def row2_def cell_def)
  from h1 h2 h3 h4 h5 h6
    scan_skips_short_tables_and_rows [of ?one default_targets 0 Map.empty ?ta _ _ ?tb _ ?row ?soup]
  show ?thesis by blast
qed

end
